theory Spec2Isabelle
  imports Complex_Main
begin

section \<open>Synthetic data generator for MOF electrochemical performance\<close>

text \<open>
  A shallow embedding of \<^verbatim>\<open>generate_synthetic_data.py\<close>. Python floats are modelled
  as \<^typ>\<open>real\<close> and Python ints as \<^typ>\<open>int\<close>; numpy arrays are lists, and the
  elementwise operations of numpy are \<^const>\<open>map\<close> and \<^const>\<open>zip\<close> over them.
  The process-wide numpy random generator is an explicit state that every function takes
  and returns. A raised exception is the left injection of a sum, paired with the generator
  state reached when it was raised.

  Rounding, overflow and the \<^verbatim>\<open>nan\<close> and \<^verbatim>\<open>inf\<close> values of floating-point arithmetic
  are outside this model. numpy divides by zero without raising; in HOL \<open>x / 0 = 0\<close>. The
  divisors of the program are the discharge time, which is positive for a positive valency,
  the peak widths and circuit parameters, which are positive for uniform draws in the unit
  interval, and positive constants.
\<close>

subsection \<open>Parameter spaces\<close>

definition NUM_SAMPLES :: nat where
  "NUM_SAMPLES = 5000"

definition RANDOM_SEED :: nat where
  "RANDOM_SEED = 42"

definition METALS :: "string list" where
  "METALS = [''Cu'', ''Ni'', ''Co'', ''Zn'', ''Fe'', ''Mn'', ''Ag'', ''Au'', ''Pd'', ''Pt'',
             ''Cr'', ''V'', ''Ti'', ''Mo'', ''W'']"

definition VALENCIES :: "int list" where
  "VALENCIES = [1, 2, 3]"

definition LIGANDS :: "string list" where
  "LIGANDS = [''BDC'', ''BTC'', ''DOBDC'', ''BPDC'', ''NDC'', ''TPA'']"

definition ASSEMBLIES :: "string list" where
  "ASSEMBLIES = [''Two-Electrode'', ''Three-Electrode'']"

definition ELECTRODES :: "string list" where
  "ELECTRODES = [''Nickel Foam'', ''Glassy Carbon'', ''Carbon Cloth'', ''Stainless Steel'']"

definition IS_MOF :: "bool list" where
  "IS_MOF = [True, False]"

text \<open>The dictionary \<^verbatim>\<open>params\<close> that every generator receives.\<close>

record params =
  metal :: string
  valency :: int
  ligand :: string
  assembly :: string
  electrode :: string
  is_mof :: bool

text \<open>A parameter set is valid when each field is drawn from its parameter space.\<close>

definition valid_params :: "params \<Rightarrow> bool" where
  "valid_params p =
     (metal p \<in> set METALS \<and> valency p \<in> set VALENCIES \<and> ligand p \<in> set LIGANDS \<and>
      assembly p \<in> set ASSEMBLIES \<and> electrode p \<in> set ELECTRODES \<and> is_mof p \<in> set IS_MOF)"

subsection \<open>Feature vector\<close>

text \<open>
  \<^verbatim>\<open>create_feature_vector\<close>: each \<^verbatim>\<open>for\<close> loop appends one entry per category, in the
  order of the category list; the scalar entries lie between the blocks.
\<close>

definition one_hot :: "string list \<Rightarrow> string \<Rightarrow> real list" where
  "one_hot categories v = map (\<lambda>c. if v = c then 1 else 0) categories"

definition create_feature_vector :: "params \<Rightarrow> real list" where
  "create_feature_vector p =
     one_hot METALS (metal p)
     @ [real_of_int (valency p) / 3]
     @ one_hot LIGANDS (ligand p)
     @ [if assembly p = ''Three-Electrode'' then 1 else 0]
     @ one_hot ELECTRODES (electrode p)
     @ [if is_mof p then 1 else 0]"

text \<open>The three one-hot blocks of a feature vector, by position.\<close>

definition metal_block :: "real list \<Rightarrow> real list" where
  "metal_block fs = take (length METALS) fs"

definition ligand_block :: "real list \<Rightarrow> real list" where
  "ligand_block fs = take (length LIGANDS) (drop (length METALS + 1) fs)"

definition electrode_block :: "real list \<Rightarrow> real list" where
  "electrode_block fs =
     take (length ELECTRODES) (drop (length METALS + 1 + length LIGANDS + 1) fs)"

subsection \<open>Property tables\<close>

record metal_props =
  redox_factor :: real
  conductivity :: real
  plasmon_peak :: real
  d_transition :: real

record electrode_props =
  capacity_boost :: real
  resistance :: real

record ligand_props =
  porosity :: real
  stability :: real

definition mk_metal :: "real \<Rightarrow> real \<Rightarrow> real \<Rightarrow> real \<Rightarrow> metal_props" where
  "mk_metal r c pp d = \<lparr>redox_factor = r, conductivity = c, plasmon_peak = pp, d_transition = d\<rparr>"

definition METAL_PROPERTIES :: "string \<rightharpoonup> metal_props" where
  "METAL_PROPERTIES = map_of
     [(''Cu'', mk_metal 1.2 1.15 22 5),
      (''Ni'', mk_metal 1.1 1.10 20 6),
      (''Co'', mk_metal 1.15 1.12 21 5.5),
      (''Zn'', mk_metal 0.95 1.05 19 7),
      (''Fe'', mk_metal 1.05 1.08 20.5 6.5),
      (''Mn'', mk_metal 1.0 1.06 19.5 6.8),
      (''Ag'', mk_metal 1.25 1.20 23 4.5),
      (''Au'', mk_metal 1.18 1.18 24 4.8),
      (''Pd'', mk_metal 1.12 1.14 21.5 5.2),
      (''Pt'', mk_metal 1.22 1.17 23.5 5.0),
      (''Cr'', mk_metal 1.08 1.09 20.2 6.2),
      (''V'', mk_metal 1.06 1.07 19.8 6.5),
      (''Ti'', mk_metal 0.98 1.04 18.5 7.2),
      (''Mo'', mk_metal 1.13 1.11 21.8 5.8),
      (''W'', mk_metal 1.16 1.13 22.5 5.5)]"

text \<open>\<^verbatim>\<open>get_metal_properties\<close>: the table entry, or the default bundle for an unknown metal.\<close>

definition get_metal_properties :: "string \<Rightarrow> metal_props" where
  "get_metal_properties m =
     (case METAL_PROPERTIES m of
        Some props \<Rightarrow> props
      | None \<Rightarrow> \<lparr>redox_factor = 1.0, conductivity = 1.0, plasmon_peak = 20.0, d_transition = 6.0\<rparr>)"

definition ELECTRODE_PROPERTIES :: "string \<rightharpoonup> electrode_props" where
  "ELECTRODE_PROPERTIES = map_of
     [(''Nickel Foam'', \<lparr>capacity_boost = 1.3, resistance = 0.8\<rparr>),
      (''Glassy Carbon'', \<lparr>capacity_boost = 1.0, resistance = 1.0\<rparr>),
      (''Carbon Cloth'', \<lparr>capacity_boost = 1.15, resistance = 0.9\<rparr>),
      (''Stainless Steel'', \<lparr>capacity_boost = 1.1, resistance = 1.1\<rparr>)]"

definition LIGAND_PROPERTIES :: "string \<rightharpoonup> ligand_props" where
  "LIGAND_PROPERTIES = map_of
     [(''BDC'', \<lparr>porosity = 1.1, stability = 1.0\<rparr>),
      (''BTC'', \<lparr>porosity = 1.2, stability = 1.1\<rparr>),
      (''DOBDC'', \<lparr>porosity = 1.15, stability = 1.05\<rparr>),
      (''BPDC'', \<lparr>porosity = 1.05, stability = 0.95\<rparr>),
      (''NDC'', \<lparr>porosity = 1.08, stability = 1.02\<rparr>),
      (''TPA'', \<lparr>porosity = 1.12, stability = 1.08\<rparr>)]"

subsection \<open>Exceptions\<close>

text \<open>
  A Python exception is its class name and its argument. Subscripting a dictionary with a
  missing key raises \<^verbatim>\<open>KeyError(key)\<close>; \<^verbatim>\<open>np.random.normal\<close> raises
  \<^verbatim>\<open>ValueError\<close> on a negative scale.
\<close>

datatype exn = Exn (exn_class: string) (exn_arg: string)

abbreviation KeyError :: "string \<Rightarrow> exn" where
  "KeyError k \<equiv> Exn ''KeyError'' k"

abbreviation ValueError :: "string \<Rightarrow> exn" where
  "ValueError msg \<equiv> Exn ''ValueError'' msg"

text \<open>A call raises an exception of class \<open>c\<close> when its result is such an exception.\<close>

definition raises :: "string \<Rightarrow> (exn + 'a) \<times> 'g \<Rightarrow> bool" where
  "raises c r = (case fst r of Inl e \<Rightarrow> exn_class e = c | Inr v \<Rightarrow> False)"

subsection \<open>The random generator\<close>

text \<open>
  numpy's global generator is not part of the program: it is a parameter, a state type
  \<^typ>\<open>'g\<close> with the operations the program calls. \<open>seed\<close> is \<^verbatim>\<open>np.random.seed\<close>,
  \<open>random_sample\<close> is \<^verbatim>\<open>np.random.random()\<close> (one draw from the half-open unit
  interval), \<open>gauss\<close> is one standard normal draw and \<open>randint n\<close> is one index draw
  below \<open>n\<close>.
\<close>

record 'g rng =
  seed :: "nat \<Rightarrow> 'g"
  random_sample :: "'g \<Rightarrow> real \<times> 'g"
  gauss :: "'g \<Rightarrow> real \<times> 'g"
  randint :: "nat \<Rightarrow> 'g \<Rightarrow> nat \<times> 'g"

text \<open>
  \<^verbatim>\<open>np.random.normal(loc, scale, size)\<close> fills an array of \<open>size\<close> entries, each
  \<open>loc + scale * z\<close> for a fresh standard normal draw \<open>z\<close>.
\<close>

fun normal :: "'g rng \<Rightarrow> real \<Rightarrow> real \<Rightarrow> nat \<Rightarrow> 'g \<Rightarrow> real list \<times> 'g" where
  "normal ops loc scale 0 g = ([], g)"
| "normal ops loc scale (Suc n) g =
     (let (z, g1) = gauss ops g;
          (zs, g2) = normal ops loc scale n g1
      in ((loc + scale * z) # zs, g2))"

text \<open>\<^verbatim>\<open>np.random.choice(a)\<close> on a list: one index draw below its length.\<close>

definition choice :: "'g rng \<Rightarrow> 'a list \<Rightarrow> 'g \<Rightarrow> 'a \<times> 'g" where
  "choice ops xs g = (let (i, g1) = randint ops (length xs) g in (xs ! i, g1))"

text \<open>
  A small concrete generator, for evaluating the program on concrete inputs: the state is
  a counter, the uniform draws run through the sixteenths of the unit interval.
\<close>

definition counter_rng :: "nat rng" where
  "counter_rng =
     \<lparr>seed = (\<lambda>s. s),
      random_sample = (\<lambda>g. (real (g mod 16) / 16, Suc g)),
      gauss = (\<lambda>g. (real (g mod 5) - 2, Suc g)),
      randint = (\<lambda>n g. (g mod n, Suc g))\<rparr>"

subsection \<open>Grids\<close>

text \<open>
  \<^verbatim>\<open>np.linspace(start, stop, num)\<close>: \<open>num\<close> evenly spaced points, the step being
  \<open>(stop - start) / (num - 1)\<close>, and the last point set to \<open>stop\<close>.
  \<^verbatim>\<open>np.logspace\<close> raises 10 to the points of \<^verbatim>\<open>np.linspace\<close>.
\<close>

definition linspace :: "real \<Rightarrow> real \<Rightarrow> nat \<Rightarrow> real list" where
  "linspace start stop num =
     (if num \<le> 1 then replicate num start
      else (map (\<lambda>i. start + real i * ((stop - start) / real (num - 1))) [0..<num])
             [num - 1 := stop])"

definition logspace :: "real \<Rightarrow> real \<Rightarrow> nat \<Rightarrow> real list" where
  "logspace start stop num = map (\<lambda>y. 10 powr y) (linspace start stop num)"

subsection \<open>Galvanostatic charge-discharge curves\<close>

record gcd_curve =
  time :: "real list"
  voltage :: "real list"

text \<open>Lines 87 to 95 of the generator: the capacity basis, with its two table lookups.\<close>

definition gcd_capacity_multiplier :: "params \<Rightarrow> exn + real" where
  "gcd_capacity_multiplier p =
     (let metal_props = get_metal_properties (metal p);
          metal_factor = redox_factor metal_props
      in case ELECTRODE_PROPERTIES (electrode p) of
           None \<Rightarrow> Inl (KeyError (electrode p))
         | Some ep \<Rightarrow>
             (case LIGAND_PROPERTIES (ligand p) of
                None \<Rightarrow> Inl (KeyError (ligand p))
              | Some lp \<Rightarrow>
                  (let electrode_factor = capacity_boost ep;
                       ligand_factor = porosity lp;
                       mof_factor = (if is_mof p then 1.5 else 1.0);
                       assembly_factor = (if assembly p = ''Three-Electrode'' then 1.1 else 1.0)
                   in Inr (metal_factor * electrode_factor * ligand_factor * mof_factor
                           * assembly_factor))))"

definition gcd_max_time :: "int \<Rightarrow> real \<Rightarrow> real \<Rightarrow> real" where
  "gcd_max_time base_capacity capacity_multiplier current =
     (real_of_int base_capacity * capacity_multiplier) / (current * 60)"

text \<open>Line 107: the voltage decay over the time grid, before the noise is added.\<close>

definition gcd_voltage :: "real \<Rightarrow> real \<Rightarrow> real \<Rightarrow> real list \<Rightarrow> real list" where
  "gcd_voltage V_start V_end max_time ts =
     map (\<lambda>t. V_end + (V_start - V_end) * exp (- t / (max_time / 3))) ts"

text \<open>The body of the loop over the current densities.\<close>

definition gcd_discharge :: "'g rng \<Rightarrow> int \<Rightarrow> real \<Rightarrow> real \<Rightarrow> 'g \<Rightarrow> gcd_curve \<times> 'g" where
  "gcd_discharge ops base_capacity capacity_multiplier current g =
     (let max_time = gcd_max_time base_capacity capacity_multiplier current;
          ts = linspace 0 max_time 200;
          (u1, g1) = random_sample ops g;
          V_start = 0.9 + 0.1 * u1;
          (u2, g2) = random_sample ops g1;
          V_end = 0.1 + 0.05 * u2;
          v = gcd_voltage V_start V_end max_time ts;
          (noise, g3) = normal ops 0 0.01 (length ts) g2
      in (\<lparr>time = ts, voltage = map2 (+) v noise\<rparr>, g3))"

text \<open>
  The loop fills the dictionary \<^verbatim>\<open>gcd_data\<close> in the order of the current densities. The
  source keys an entry by the text \<^verbatim>\<open>current_<c>\<close>; the model keys it by \<open>c\<close> itself.
\<close>

fun gcd_loop ::
  "'g rng \<Rightarrow> int \<Rightarrow> real \<Rightarrow> real list \<Rightarrow> 'g \<Rightarrow> (real \<times> gcd_curve) list \<times> 'g" where
  "gcd_loop ops base_capacity capacity_multiplier [] g = ([], g)"
| "gcd_loop ops base_capacity capacity_multiplier (current # rest) g =
     (let (curve, g1) = gcd_discharge ops base_capacity capacity_multiplier current g;
          (curves, g2) = gcd_loop ops base_capacity capacity_multiplier rest g1
      in ((current, curve) # curves, g2))"

definition gcd_current_densities :: "real list" where
  "gcd_current_densities = [0.5, 1.0, 1.5, 2.0, 2.5]"

definition generate_gcd_curve ::
  "'g rng \<Rightarrow> params \<Rightarrow> 'g \<Rightarrow> (exn + (real \<times> gcd_curve) list) \<times> 'g" where
  "generate_gcd_curve ops p g =
     (let current_densities = gcd_current_densities;
          base_capacity = 100 * valency p
      in case gcd_capacity_multiplier p of
           Inl e \<Rightarrow> (Inl e, g)
         | Inr capacity_multiplier \<Rightarrow>
             (let (gcd_data, g1) =
                    gcd_loop ops base_capacity capacity_multiplier current_densities g
              in (Inr gcd_data, g1)))"

subsection \<open>Rate capability\<close>

record rate_data =
  current_density :: "real list"
  specific_capacity :: "real list"

text \<open>\<^verbatim>\<open>np.clip(a, lo, hi)\<close> is \<^verbatim>\<open>minimum(hi, maximum(a, lo))\<close>, elementwise.\<close>

definition clip :: "real list \<Rightarrow> real \<Rightarrow> real \<Rightarrow> real list" where
  "clip xs lo hi = map (\<lambda>x. min hi (max x lo)) xs"

text \<open>
  \<^verbatim>\<open>np.clip(a, lo, None)\<close> has no ceiling: \<^verbatim>\<open>maximum(a, lo)\<close>, elementwise.
\<close>

definition clip_floor :: "real list \<Rightarrow> real \<Rightarrow> real list" where
  "clip_floor xs lo = map (\<lambda>x. max x lo) xs"

text \<open>Lines 129 to 135: the capacity ceiling, with its three table lookups.\<close>

definition rate_max_capacity :: "params \<Rightarrow> exn + real" where
  "rate_max_capacity p =
     (let base_capacity = 100 * valency p
      in case METAL_PROPERTIES (metal p) of
           None \<Rightarrow> Inl (KeyError (metal p))
         | Some mp \<Rightarrow>
         (case ELECTRODE_PROPERTIES (electrode p) of
           None \<Rightarrow> Inl (KeyError (electrode p))
         | Some ep \<Rightarrow>
         (case LIGAND_PROPERTIES (ligand p) of
           None \<Rightarrow> Inl (KeyError (ligand p))
         | Some lp \<Rightarrow>
             (let metal_factor = redox_factor mp;
                  electrode_factor = capacity_boost ep;
                  ligand_factor = porosity lp;
                  mof_factor = (if is_mof p then 1.5 else 1.0)
              in Inr (real_of_int base_capacity * metal_factor * electrode_factor
                      * ligand_factor * mof_factor)))))"

text \<open>Lines 138 to 145: the power law over the grid, the noise and the clamp.\<close>

definition rate_capacity_fade :: "'g rng \<Rightarrow> real \<Rightarrow> 'g \<Rightarrow> (exn + rate_data) \<times> 'g" where
  "rate_capacity_fade ops max_capacity g =
     (let current_densities = linspace 0.5 5.0 10;
          capacity = map (\<lambda>c. max_capacity * (0.5 / c) powr 0.3) current_densities
      in if max_capacity * 0.02 < 0 then (Inl (ValueError ''scale < 0''), g)
         else
           (let (noise, g1) = normal ops 0 (max_capacity * 0.02) (length capacity) g;
                noisy = map2 (+) capacity noise
            in (Inr \<lparr>current_density = current_densities,
                     specific_capacity = clip noisy 0 max_capacity\<rparr>, g1)))"

definition generate_rate_capability ::
  "'g rng \<Rightarrow> params \<Rightarrow> 'g \<Rightarrow> (exn + rate_data) \<times> 'g" where
  "generate_rate_capability ops p g =
     (case rate_max_capacity p of
        Inl e \<Rightarrow> (Inl e, g)
      | Inr max_capacity \<Rightarrow> rate_capacity_fade ops max_capacity g)"

text \<open>
  The capacity ceiling as the specification writes it, from the parameters alone:
  \<open>100 \<times> valency \<times> redox_factor(metal) \<times> capacity_boost(electrode) \<times> porosity(ligand)\<close>
  times 1.5 for a MOF. A key outside a table counts as the metal default and as factor 1.
\<close>

definition max_capacity_of :: "params \<Rightarrow> real" where
  "max_capacity_of p =
     100 * real_of_int (valency p)
     * redox_factor (get_metal_properties (metal p))
     * (case ELECTRODE_PROPERTIES (electrode p) of Some ep \<Rightarrow> capacity_boost ep | None \<Rightarrow> 1)
     * (case LIGAND_PROPERTIES (ligand p) of Some lp \<Rightarrow> porosity lp | None \<Rightarrow> 1)
     * (if is_mof p then 1.5 else 1.0)"

subsection \<open>Inelastic electron scattering spectrum\<close>

record ies_data =
  energy :: "real list"
  intensity :: "real list"

text \<open>Lines 159 and 166: a Gaussian peak over the energy grid.\<close>

definition gaussian_peak :: "real \<Rightarrow> real \<Rightarrow> real \<Rightarrow> real list \<Rightarrow> real list" where
  "gaussian_peak height centre width es =
     map (\<lambda>e. height * exp (- (((e - centre) / width)\<^sup>2))) es"

definition generate_ies_spectrum :: "'g rng \<Rightarrow> params \<Rightarrow> 'g \<Rightarrow> ies_data \<times> 'g" where
  "generate_ies_spectrum ops p g =
     (let es = linspace 0 50 500;
          metal_props = get_metal_properties (metal p);
          plasmon_energy = plasmon_peak metal_props;
          (u1, g1) = random_sample ops g;
          plasmon_intensity = 0.8 + 0.2 * u1;
          (u2, g2) = random_sample ops g1;
          plasmon_width = 2.0 + 0.5 * u2;
          plasmon = gaussian_peak plasmon_intensity plasmon_energy plasmon_width es;
          d_transition_energy = d_transition metal_props;
          (u3, g3) = random_sample ops g2;
          d_intensity = 0.4 + 0.1 * u3;
          (u4, g4) = random_sample ops g3;
          d_width = 1.5 + 0.3 * u4;
          d_peak = gaussian_peak d_intensity d_transition_energy d_width es;
          background = map (\<lambda>e. 0.1 * exp (- e / 30)) es;
          spectrum = map2 (+) (map2 (+) plasmon d_peak) background;
          (noise, g5) = normal ops 0 0.01 (length es) g4;
          noisy = map2 (+) spectrum noise
      in (\<lparr>energy = es, intensity = clip_floor noisy 0\<rparr>, g5))"

subsection \<open>Impedance spectroscopy\<close>

record eis_data =
  z_real :: "real list"
  z_imag :: "real list"
  frequency :: "real list"

text \<open>
  A complex number raised to a real power, on the principal branch, as numpy computes
  \<^verbatim>\<open>(1j * omega)**CPE_P\<close>.
\<close>

definition cpow :: "complex \<Rightarrow> real \<Rightarrow> complex" where
  "cpow z a = (if z = 0 then 0 else of_real (cmod z powr a) * cis (a * Arg z))"

text \<open>Lines 197 to 206: the impedance of the simplified Randles circuit at each frequency.\<close>

definition randles_impedance ::
  "real \<Rightarrow> real \<Rightarrow> real \<Rightarrow> real \<Rightarrow> real \<Rightarrow> real list \<Rightarrow> complex list" where
  "randles_impedance R_solution R_ct CPE_T CPE_P W freq =
     (let omega = map (\<lambda>f. 2 * pi * f) freq;
          Z_CPE = map (\<lambda>w. 1 / (of_real CPE_T * cpow (\<i> * of_real w) CPE_P)) omega;
          Z_W = map (\<lambda>w. of_real (W / sqrt w) * (1 - \<i>)) omega
      in map2 (\<lambda>c w. of_real R_solution + 1 / (1 / of_real R_ct + 1 / (c + w))) Z_CPE Z_W)"

definition generate_eis_nyquist ::
  "'g rng \<Rightarrow> params \<Rightarrow> 'g \<Rightarrow> (exn + eis_data) \<times> 'g" where
  "generate_eis_nyquist ops p g =
     (let freq = logspace (- 2) 5 100;
          (u1, g1) = random_sample ops g;
          R_solution = 5 + 2 * u1
      in case ELECTRODE_PROPERTIES (electrode p) of
           None \<Rightarrow> (Inl (KeyError (electrode p)), g1)
         | Some ep \<Rightarrow>
             (let (u2, g2) = random_sample ops g1;
                  R_ct = resistance ep * (20 + 10 * u2);
                  (u3, g3) = random_sample ops g2;
                  CPE_T = 0.001 + 0.0005 * u3;
                  (u4, g4) = random_sample ops g3;
                  CPE_P = 0.85 + 0.1 * u4;
                  (u5, g5) = random_sample ops g4;
                  W = 10 + 5 * u5;
                  Z_total = randles_impedance R_solution R_ct CPE_T CPE_P W freq;
                  Z_real = map Re Z_total;
                  Z_imag = map (\<lambda>z. - Im z) Z_total;
                  (noise_re, g6) = normal ops 0 0.5 (length Z_real) g5;
                  (noise_im, g7) = normal ops 0 0.5 (length Z_imag) g6
              in (Inr \<lparr>z_real = map2 (+) Z_real noise_re,
                       z_imag = map2 (+) Z_imag noise_im,
                       frequency = freq\<rparr>, g7)))"

subsection \<open>Samples and the dataset\<close>

record outputs =
  gcd :: "(real \<times> gcd_curve) list"
  rate_capability :: rate_data
  ies :: ies_data
  eis :: eis_data

record sample =
  inputs :: params
  outputs :: outputs

text \<open>
  \<^verbatim>\<open>generate_sample\<close>: six draws for the parameters, in the order of the dictionary
  literal, then the four generators on the same parameters. An exception of a generator
  ends the call.
\<close>

definition draw_params :: "'g rng \<Rightarrow> 'g \<Rightarrow> params \<times> 'g" where
  "draw_params ops g =
     (let (m, g1) = choice ops METALS g;
          (v, g2) = choice ops VALENCIES g1;
          (l, g3) = choice ops LIGANDS g2;
          (a, g4) = choice ops ASSEMBLIES g3;
          (e, g5) = choice ops ELECTRODES g4;
          (b, g6) = choice ops IS_MOF g5
      in (\<lparr>metal = m, valency = v, ligand = l, assembly = a, electrode = e, is_mof = b\<rparr>, g6))"

definition generate_outputs :: "'g rng \<Rightarrow> params \<Rightarrow> 'g \<Rightarrow> (exn + outputs) \<times> 'g" where
  "generate_outputs ops p g =
     (case generate_gcd_curve ops p g of
        (Inl e, g1) \<Rightarrow> (Inl e, g1)
      | (Inr gcd_data, g1) \<Rightarrow>
     (case generate_rate_capability ops p g1 of
        (Inl e, g2) \<Rightarrow> (Inl e, g2)
      | (Inr rate, g2) \<Rightarrow>
     (case generate_ies_spectrum ops p g2 of
        (spectrum, g3) \<Rightarrow>
     (case generate_eis_nyquist ops p g3 of
        (Inl e, g4) \<Rightarrow> (Inl e, g4)
      | (Inr nyquist, g4) \<Rightarrow>
          (Inr \<lparr>gcd = gcd_data, rate_capability = rate, ies = spectrum, eis = nyquist\<rparr>,
           g4)))))"

definition generate_sample :: "'g rng \<Rightarrow> 'g \<Rightarrow> (exn + sample) \<times> 'g" where
  "generate_sample ops g =
     (let (p, g1) = draw_params ops g
      in case generate_outputs ops p g1 of
           (Inl e, g2) \<Rightarrow> (Inl e, g2)
         | (Inr out, g2) \<Rightarrow> (Inr \<lparr>inputs = p, outputs = out\<rparr>, g2))"

text \<open>
  The loop of \<^verbatim>\<open>main\<close>: \<open>n\<close> samples appended in order. The generator was seeded once,
  when the module was loaded. Writing the samples to a file with \<^verbatim>\<open>json.dump\<close>, which
  prints every float as text, is not part of this model.
\<close>

fun generate_dataset :: "'g rng \<Rightarrow> nat \<Rightarrow> 'g \<Rightarrow> (exn + sample list) \<times> 'g" where
  "generate_dataset ops 0 g = (Inr [], g)"
| "generate_dataset ops (Suc n) g =
     (case generate_sample ops g of
        (Inl e, g1) \<Rightarrow> (Inl e, g1)
      | (Inr s, g1) \<Rightarrow>
          (case generate_dataset ops n g1 of
             (Inl e, g2) \<Rightarrow> (Inl e, g2)
           | (Inr ss, g2) \<Rightarrow> (Inr (s # ss), g2)))"

definition run_dataset :: "'g rng \<Rightarrow> nat \<Rightarrow> exn + sample list" where
  "run_dataset ops s = fst (generate_dataset ops NUM_SAMPLES (seed ops s))"

subsection \<open>Concrete parameter sets\<close>

text \<open>The two scenarios of the specification, and a parameter set outside every table.\<close>

definition cu_params :: params where
  "cu_params = \<lparr>metal = ''Cu'', valency = 2, ligand = ''BDC'', assembly = ''Two-Electrode'',
                 electrode = ''Nickel Foam'', is_mof = True\<rparr>"

definition xx_params :: params where
  "xx_params = \<lparr>metal = ''Xx'', valency = 1, ligand = ''BTC'', assembly = ''Two-Electrode'',
                 electrode = ''Glassy Carbon'', is_mof = False\<rparr>"

definition alien_params :: params where
  "alien_params = \<lparr>metal = ''Xx'', valency = 1, ligand = ''XYZ'', assembly = ''Two-Electrode'',
                    electrode = ''Copper Foil'', is_mof = False\<rparr>"

text \<open>A discharge curve of the expected shape: 200 points, time from 0 and non-decreasing.\<close>

definition gcd_curve_ok :: "gcd_curve \<Rightarrow> bool" where
  "gcd_curve_ok c = (length (time c) = 200 \<and> length (voltage c) = length (time c)
      \<and> time c ! 0 = 0 \<and> sorted (time c))"

section \<open>Properties of the feature vector\<close>

lemma length_one_hot: "length (one_hot cs v) = length cs"
  by (simp add: one_hot_def)

lemma one_hot_absent: "v \<notin> set cs \<Longrightarrow> one_hot cs v = replicate (length cs) 0"
  by (induction cs) (auto simp: one_hot_def)

lemma sum_list_one_hot_absent: "v \<notin> set cs \<Longrightarrow> sum_list (one_hot cs v) = 0"
  by (induction cs) (auto simp: one_hot_def)

lemma sum_list_one_hot_present:
  "distinct cs \<Longrightarrow> v \<in> set cs \<Longrightarrow> sum_list (one_hot cs v) = 1"
proof (induction cs)
  case Nil
  then show ?case by simp
next
  case (Cons c cs)
  show ?case
  proof (cases "v = c")
    case True
    with Cons.prems have "v \<notin> set cs" by simp
    then have "sum_list (one_hot cs v) = 0" by (rule sum_list_one_hot_absent)
    with True show ?thesis by (simp add: one_hot_def)
  next
    case False
    with Cons.prems have "distinct cs" "v \<in> set cs" by simp_all
    then have "sum_list (one_hot cs v) = 1" by (rule Cons.IH)
    with False show ?thesis by (simp add: one_hot_def)
  qed
qed

lemma distinct_METALS: "distinct METALS"
  by (simp add: METALS_def)

lemma distinct_LIGANDS: "distinct LIGANDS"
  by (simp add: LIGANDS_def)

lemma distinct_ELECTRODES: "distinct ELECTRODES"
  by (simp add: ELECTRODES_def)

lemma length_METALS: "length METALS = 15"
  by (simp add: METALS_def)

lemma length_LIGANDS: "length LIGANDS = 6"
  by (simp add: LIGANDS_def)

lemma length_ELECTRODES: "length ELECTRODES = 4"
  by (simp add: ELECTRODES_def)

lemma length_create_feature_vector:
  "length (create_feature_vector p) = length METALS + length LIGANDS + length ELECTRODES + 3"
  by (simp add: create_feature_vector_def length_one_hot)

lemma metal_block_feature_vector:
  "metal_block (create_feature_vector p) = one_hot METALS (metal p)"
  by (simp add: metal_block_def create_feature_vector_def length_one_hot)

lemma ligand_block_feature_vector:
  "ligand_block (create_feature_vector p) = one_hot LIGANDS (ligand p)"
  by (simp add: ligand_block_def create_feature_vector_def length_one_hot)

lemma electrode_block_feature_vector:
  "electrode_block (create_feature_vector p) = one_hot ELECTRODES (electrode p)"
  by (simp add: electrode_block_def create_feature_vector_def length_one_hot)

lemma valid_cu_params: "valid_params cu_params"
  by (simp add: valid_params_def cu_params_def METALS_def VALENCIES_def LIGANDS_def
      ASSEMBLIES_def ELECTRODES_def IS_MOF_def)

text \<open>
  Claim C4. For every valid parameter set the feature vector has the constant length
  \<open>|METALS| + |LIGANDS| + |ELECTRODES| + 3\<close>, which is 28, and the metal block, the ligand
  block and the electrode block each sum to exactly 1. The encoder is a function of the
  parameter set alone.
\<close>

theorem create_feature_vector_valid:
  assumes "valid_params p"
  shows "length (create_feature_vector p) = length METALS + length LIGANDS + length ELECTRODES + 3
       \<and> length (create_feature_vector p) = 28
       \<and> sum_list (metal_block (create_feature_vector p)) = 1
       \<and> sum_list (ligand_block (create_feature_vector p)) = 1
       \<and> sum_list (electrode_block (create_feature_vector p)) = 1"
proof -
  from assms have m: "metal p \<in> set METALS" and l: "ligand p \<in> set LIGANDS"
    and e: "electrode p \<in> set ELECTRODES"
    by (simp_all add: valid_params_def)
  have "sum_list (metal_block (create_feature_vector p)) = 1"
    using distinct_METALS m by (simp add: metal_block_feature_vector sum_list_one_hot_present)
  moreover have "sum_list (ligand_block (create_feature_vector p)) = 1"
    using distinct_LIGANDS l by (simp add: ligand_block_feature_vector sum_list_one_hot_present)
  moreover have "sum_list (electrode_block (create_feature_vector p)) = 1"
    using distinct_ELECTRODES e
    by (simp add: electrode_block_feature_vector sum_list_one_hot_present)
  moreover have "length (create_feature_vector p) = 28"
    by (simp add: length_create_feature_vector length_METALS length_LIGANDS length_ELECTRODES)
  ultimately show ?thesis
    by (simp add: length_create_feature_vector)
qed

theorem create_feature_vector_valid_witness:
  "valid_params cu_params
   \<and> length (create_feature_vector cu_params) = 28
   \<and> sum_list (metal_block (create_feature_vector cu_params)) = 1
   \<and> sum_list (ligand_block (create_feature_vector cu_params)) = 1
   \<and> sum_list (electrode_block (create_feature_vector cu_params)) = 1"
  using create_feature_vector_valid [OF valid_cu_params] valid_cu_params by simp

text \<open>
  Claim C10. The encoder is total on arbitrary strings: it has no error result, its output
  has length 28 for every parameter set, and the block of a category value outside the
  fixed universe is all zeros, so that it sums to 0.
\<close>

theorem create_feature_vector_total:
  "length (create_feature_vector p) = 28
   \<and> (metal p \<notin> set METALS \<longrightarrow>
        metal_block (create_feature_vector p) = replicate 15 0
        \<and> sum_list (metal_block (create_feature_vector p)) = 0)
   \<and> (ligand p \<notin> set LIGANDS \<longrightarrow>
        ligand_block (create_feature_vector p) = replicate 6 0
        \<and> sum_list (ligand_block (create_feature_vector p)) = 0)
   \<and> (electrode p \<notin> set ELECTRODES \<longrightarrow>
        electrode_block (create_feature_vector p) = replicate 4 0
        \<and> sum_list (electrode_block (create_feature_vector p)) = 0)"
proof -
  have "length (create_feature_vector p) = 28"
    by (simp add: length_create_feature_vector length_METALS length_LIGANDS length_ELECTRODES)
  moreover have "metal_block (create_feature_vector p) = replicate 15 0
      \<and> sum_list (metal_block (create_feature_vector p)) = 0"
    if "metal p \<notin> set METALS"
  proof
    show "metal_block (create_feature_vector p) = replicate 15 0"
      using that one_hot_absent [of "metal p" METALS]
      by (simp add: metal_block_feature_vector length_METALS)
    show "sum_list (metal_block (create_feature_vector p)) = 0"
      using that by (simp add: metal_block_feature_vector sum_list_one_hot_absent)
  qed
  moreover have "ligand_block (create_feature_vector p) = replicate 6 0
      \<and> sum_list (ligand_block (create_feature_vector p)) = 0"
    if "ligand p \<notin> set LIGANDS"
  proof
    show "ligand_block (create_feature_vector p) = replicate 6 0"
      using that one_hot_absent [of "ligand p" LIGANDS]
      by (simp add: ligand_block_feature_vector length_LIGANDS)
    show "sum_list (ligand_block (create_feature_vector p)) = 0"
      using that by (simp add: ligand_block_feature_vector sum_list_one_hot_absent)
  qed
  moreover have "electrode_block (create_feature_vector p) = replicate 4 0
      \<and> sum_list (electrode_block (create_feature_vector p)) = 0"
    if "electrode p \<notin> set ELECTRODES"
  proof
    show "electrode_block (create_feature_vector p) = replicate 4 0"
      using that one_hot_absent [of "electrode p" ELECTRODES]
      by (simp add: electrode_block_feature_vector length_ELECTRODES)
    show "sum_list (electrode_block (create_feature_vector p)) = 0"
      using that by (simp add: electrode_block_feature_vector sum_list_one_hot_absent)
  qed
  ultimately show ?thesis by blast
qed

theorem create_feature_vector_total_witness:
  "metal alien_params \<notin> set METALS \<and> ligand alien_params \<notin> set LIGANDS
   \<and> electrode alien_params \<notin> set ELECTRODES
   \<and> length (create_feature_vector alien_params) = 28
   \<and> sum_list (metal_block (create_feature_vector alien_params)) = 0
   \<and> sum_list (ligand_block (create_feature_vector alien_params)) = 0
   \<and> sum_list (electrode_block (create_feature_vector alien_params)) = 0"
proof -
  have a: "metal alien_params \<notin> set METALS" "ligand alien_params \<notin> set LIGANDS"
    "electrode alien_params \<notin> set ELECTRODES"
    by (simp_all add: alien_params_def METALS_def LIGANDS_def ELECTRODES_def)
  with create_feature_vector_total [of alien_params] show ?thesis by blast
qed

lemma length_linspace: "length (linspace a b n) = n"
  by (simp add: linspace_def)

lemma linspace_nth:
  assumes "1 < n" "i < n"
  shows "linspace a b n ! i = a + real i * ((b - a) / real (n - 1))"
proof (cases "i = n - 1")
  case True
  with assms show ?thesis by (simp add: linspace_def)
next
  case False
  with assms show ?thesis by (simp add: linspace_def)
qed

lemma linspace_first: "0 < n \<Longrightarrow> linspace a b n ! 0 = a"
  by (cases "n = 1") (simp_all add: linspace_def)

lemma sorted_linspace:
  assumes "a \<le> b"
  shows "sorted (linspace a b n)"
proof (cases "n \<le> 1")
  case True
  then show ?thesis by (simp add: linspace_def)
next
  case False
  then have n: "1 < n" by simp
  show ?thesis
  proof (rule sorted_iff_nth_mono [THEN iffD2], intro allI impI)
    fix i j
    assume ij: "i \<le> j" and j: "j < length (linspace a b n)"
    then have "j < n" "i < n" by (simp_all add: length_linspace)
    moreover have "real i * ((b - a) / real (n - 1)) \<le> real j * ((b - a) / real (n - 1))"
      using ij assms n by (intro mult_right_mono) simp_all
    ultimately show "linspace a b n ! i \<le> linspace a b n ! j"
      using n by (simp add: linspace_nth)
  qed
qed

lemma length_normal: "length (fst (normal ops loc scale n g)) = n"
  by (induction n arbitrary: g) (simp_all add: Let_def case_prod_beta)

lemma metal_table:
  "m \<in> set METALS \<Longrightarrow> \<exists>mp. METAL_PROPERTIES m = Some mp \<and> 0 < redox_factor mp"
  by (auto simp: METALS_def METAL_PROPERTIES_def mk_metal_def)

lemma electrode_table:
  "e \<in> set ELECTRODES \<Longrightarrow>
     \<exists>ep. ELECTRODE_PROPERTIES e = Some ep \<and> 0 < capacity_boost ep \<and> 0 < resistance ep"
  by (auto simp: ELECTRODES_def ELECTRODE_PROPERTIES_def)

lemma ligand_table:
  "l \<in> set LIGANDS \<Longrightarrow> \<exists>lp. LIGAND_PROPERTIES l = Some lp \<and> 0 < porosity lp"
  by (auto simp: LIGANDS_def LIGAND_PROPERTIES_def)








lemma list_all_clip:
  "0 \<le> hi \<Longrightarrow> list_all (\<lambda>c. 0 \<le> c \<and> c \<le> hi) (clip xs 0 hi)"
  by (induction xs) (simp_all add: clip_def)

lemma length_clip: "length (clip xs lo hi) = length xs"
  by (simp add: clip_def)

lemma rate_max_capacity_valid:
  assumes "valid_params p"
  shows "rate_max_capacity p = Inr (max_capacity_of p) \<and> 0 < max_capacity_of p"
proof -
  from assms obtain mp where mp: "METAL_PROPERTIES (metal p) = Some mp" "0 < redox_factor mp"
    using metal_table by (auto simp: valid_params_def)
  from assms obtain ep where ep: "ELECTRODE_PROPERTIES (electrode p) = Some ep"
      "0 < capacity_boost ep"
    using electrode_table by (auto simp: valid_params_def)
  from assms obtain lp where lp: "LIGAND_PROPERTIES (ligand p) = Some lp" "0 < porosity lp"
    using ligand_table by (auto simp: valid_params_def)
  from assms have v: "0 < valency p" by (auto simp: valid_params_def VALENCIES_def)
  have "rate_max_capacity p = Inr (max_capacity_of p)"
    using mp ep lp
    by (simp add: rate_max_capacity_def max_capacity_of_def get_metal_properties_def)
  moreover have "0 < max_capacity_of p"
    using mp ep lp v by (simp add: max_capacity_of_def get_metal_properties_def)
  ultimately show ?thesis by simp
qed

lemma rate_capacity_fade_clamped:
  assumes "0 \<le> mc"
  shows "\<exists>r g'. rate_capacity_fade ops mc g = (Inr r, g')
           \<and> current_density r = linspace 0.5 5.0 10
           \<and> length (specific_capacity r) = 10
           \<and> list_all (\<lambda>c. 0 \<le> c \<and> c \<le> mc) (specific_capacity r)"
  using assms
  by (simp add: rate_capacity_fade_def Let_def case_prod_beta list_all_clip length_clip
      length_normal length_linspace)

text \<open>
  Claim C5. For every valid parameter set the rate-capability generator returns, and every
  specific capacity it returns lies between 0 and the capacity ceiling
  \<open>100 \<times> valency \<times> redox_factor \<times> capacity_boost \<times> porosity\<close> (times 1.5 for a MOF),
  computed from the parameters alone.
\<close>

theorem generate_rate_capability_clamped:
  assumes "valid_params p"
  shows "\<exists>r g'. generate_rate_capability ops p g = (Inr r, g')
           \<and> current_density r = linspace 0.5 5.0 10
           \<and> length (specific_capacity r) = 10
           \<and> list_all (\<lambda>c. 0 \<le> c \<and> c \<le> max_capacity_of p) (specific_capacity r)"
proof -
  from rate_max_capacity_valid [OF assms]
  have mc: "rate_max_capacity p = Inr (max_capacity_of p)" and pos: "0 \<le> max_capacity_of p"
    by simp_all
  from rate_capacity_fade_clamped [OF pos, of ops g] show ?thesis
    by (simp add: generate_rate_capability_def mc)
qed

theorem generate_rate_capability_clamped_witness:
  "valid_params cu_params
   \<and> (\<exists>r g'. generate_rate_capability counter_rng cu_params 0 = (Inr r, g')
          \<and> current_density r = linspace 0.5 5.0 10
          \<and> length (specific_capacity r) = 10
          \<and> list_all (\<lambda>c. 0 \<le> c \<and> c \<le> max_capacity_of cu_params) (specific_capacity r))"
  using generate_rate_capability_clamped [OF valid_cu_params, of counter_rng 0] valid_cu_params
  by simp

lemma length_gcd_voltage: "length (gcd_voltage a b m ts) = length ts"
  by (simp add: gcd_voltage_def)

lemma time_gcd_discharge:
  "time (fst (gcd_discharge ops bc cm c g)) = linspace 0 (gcd_max_time bc cm c) 200"
  by (simp add: gcd_discharge_def Let_def case_prod_beta)

lemma length_voltage_gcd_discharge:
  "length (voltage (fst (gcd_discharge ops bc cm c g))) = 200"
  by (simp add: gcd_discharge_def Let_def case_prod_beta length_gcd_voltage length_linspace
      length_normal)

lemma gcd_discharge_ok:
  assumes "0 \<le> gcd_max_time bc cm c"
  shows "gcd_curve_ok (fst (gcd_discharge ops bc cm c g))"
  using assms
  by (simp add: gcd_curve_ok_def time_gcd_discharge length_voltage_gcd_discharge
      length_linspace linspace_first sorted_linspace)

lemma gcd_loop_keys: "map fst (fst (gcd_loop ops bc cm cs g)) = cs"
  by (induction cs arbitrary: g) (simp_all add: Let_def case_prod_beta)

lemma gcd_loop_ok:
  assumes "list_all (\<lambda>c. 0 \<le> gcd_max_time bc cm c) cs"
  shows "list_all (\<lambda>kv. gcd_curve_ok (snd kv)) (fst (gcd_loop ops bc cm cs g))"
  using assms
  by (induction cs arbitrary: g) (simp_all add: Let_def case_prod_beta gcd_discharge_ok)

lemma gcd_capacity_multiplier_valid:
  assumes "valid_params p"
  shows "\<exists>cm. gcd_capacity_multiplier p = Inr cm \<and> 0 < cm"
proof -
  from assms obtain mp where mp: "METAL_PROPERTIES (metal p) = Some mp" "0 < redox_factor mp"
    using metal_table by (auto simp: valid_params_def)
  from assms obtain ep where ep: "ELECTRODE_PROPERTIES (electrode p) = Some ep"
      "0 < capacity_boost ep"
    using electrode_table by (auto simp: valid_params_def)
  from assms obtain lp where lp: "LIGAND_PROPERTIES (ligand p) = Some lp" "0 < porosity lp"
    using ligand_table by (auto simp: valid_params_def)
  show ?thesis
    using mp ep lp by (simp add: gcd_capacity_multiplier_def get_metal_properties_def)
qed

lemma gcd_max_time_pos:
  "0 < bc \<Longrightarrow> 0 < cm \<Longrightarrow> 0 < c \<Longrightarrow> 0 < gcd_max_time bc cm c"
  by (simp add: gcd_max_time_def)

text \<open>
  Claim C8. For every valid parameter set the discharge-curve generator returns one entry
  per current density of its fixed set, every one of them positive; in each entry the time
  sequence starts at 0 and is non-decreasing, and the time and voltage sequences have the
  same length.
\<close>

theorem generate_gcd_curve_valid:
  assumes "valid_params p"
  shows "\<exists>d g'. generate_gcd_curve ops p g = (Inr d, g')
           \<and> map fst d = gcd_current_densities
           \<and> list_all (\<lambda>kv. 0 < fst kv) d
           \<and> list_all (\<lambda>kv. length (time (snd kv)) = length (voltage (snd kv))
                             \<and> time (snd kv) ! 0 = 0 \<and> sorted (time (snd kv))) d"
proof -
  from gcd_capacity_multiplier_valid [OF assms]
  obtain cm where cm: "gcd_capacity_multiplier p = Inr cm" "0 < cm" by blast
  from assms have v: "0 < 100 * valency p" by (auto simp: valid_params_def VALENCIES_def)
  define d where "d = fst (gcd_loop ops (100 * valency p) cm gcd_current_densities g)"
  have run: "generate_gcd_curve ops p g =
      (Inr d, snd (gcd_loop ops (100 * valency p) cm gcd_current_densities g))"
    using cm by (simp add: generate_gcd_curve_def Let_def case_prod_beta d_def)
  have keys: "map fst d = gcd_current_densities"
    by (simp add: d_def gcd_loop_keys)
  have "list_all (\<lambda>c. 0 < c) gcd_current_densities"
    by (simp add: gcd_current_densities_def)
  then have pos: "list_all (\<lambda>kv. 0 < fst kv) d"
    unfolding keys [symmetric] by (simp add: list.pred_map comp_def)
  have "list_all (\<lambda>c. 0 \<le> gcd_max_time (100 * valency p) cm c) gcd_current_densities"
    using gcd_max_time_pos [OF v cm(2)]
    by (simp add: gcd_current_densities_def less_imp_le)
  then have "list_all (\<lambda>kv. gcd_curve_ok (snd kv)) d"
    unfolding d_def by (rule gcd_loop_ok)
  then have ok: "list_all (\<lambda>kv. length (time (snd kv)) = length (voltage (snd kv))
                             \<and> time (snd kv) ! 0 = 0 \<and> sorted (time (snd kv))) d"
    by (rule list.pred_mono_strong) (simp add: gcd_curve_ok_def)
  from run keys pos ok show ?thesis by simp
qed

theorem generate_gcd_curve_valid_witness:
  "valid_params cu_params
   \<and> (\<exists>d g'. generate_gcd_curve counter_rng cu_params 0 = (Inr d, g')
          \<and> map fst d = gcd_current_densities
          \<and> list_all (\<lambda>kv. 0 < fst kv) d
          \<and> list_all (\<lambda>kv. length (time (snd kv)) = length (voltage (snd kv))
                            \<and> time (snd kv) ! 0 = 0 \<and> sorted (time (snd kv))) d)"
  using generate_gcd_curve_valid [OF valid_cu_params, of counter_rng 0] valid_cu_params
  by simp









lemma gcd_voltage_first:
  "0 < length ts \<Longrightarrow> ts ! 0 = 0 \<Longrightarrow> gcd_voltage V_start V_end mt ts ! 0 = V_start"
  by (simp add: gcd_voltage_def)

lemma normal_first:
  "0 < n \<Longrightarrow> fst (normal ops loc scale n g) ! 0 = loc + scale * fst (gauss ops g)"
  by (cases n) (simp_all add: Let_def case_prod_beta)

lemma voltage_gcd_discharge_first:
  "voltage (fst (gcd_discharge ops bc cm c g)) ! 0 =
     (0.9 + 0.1 * fst (random_sample ops g))
     + 0.01 * fst (gauss ops (snd (random_sample ops (snd (random_sample ops g)))))"
  by (simp add: gcd_discharge_def Let_def case_prod_beta length_gcd_voltage length_linspace
      length_normal gcd_voltage_first linspace_first normal_first)

lemma gcd_capacity_multiplier_cu: "gcd_capacity_multiplier cu_params = Inr 2.574"
  by (simp add: gcd_capacity_multiplier_def cu_params_def get_metal_properties_def
      METAL_PROPERTIES_def ELECTRODE_PROPERTIES_def LIGAND_PROPERTIES_def mk_metal_def)

lemma gcd_max_time_cu: "gcd_max_time (100 * valency cu_params) 2.574 0.5 = 17.16"
  by (simp add: gcd_max_time_def cu_params_def)

text \<open>
  Claim C7. For copper, valency 2, ligand BDC, nickel foam, a MOF, two electrodes, the
  capacity multiplier is \<open>1.2 \<times> 1.3 \<times> 1.1 \<times> 1.5 \<times> 1.0 = 2.574\<close>; at current density 0.5
  the discharge time is \<open>(100 \<times> 2 \<times> 2.574) / (0.5 \<times> 60) = 17.16\<close>; the first entry of the
  output is the one of current density 0.5, its time grid runs from 0 to 17.16 and starts
  at 0; its first voltage is the start voltage plus the first noise term, and the start
  voltage, which is the first voltage before the noise, lies between 0.9 and 1.0 when the
  uniform draw lies in the unit interval.
\<close>

theorem generate_gcd_curve_cu:
  assumes "0 \<le> fst (random_sample ops g)" and "fst (random_sample ops g) < 1"
  shows "gcd_capacity_multiplier cu_params = Inr 2.574
       \<and> gcd_max_time (100 * valency cu_params) 2.574 0.5 = 17.16
       \<and> (\<exists>curve rest g'.
            generate_gcd_curve ops cu_params g = (Inr ((0.5, curve) # rest), g')
            \<and> time curve = linspace 0 17.16 200
            \<and> time curve ! 0 = 0
            \<and> voltage curve ! 0 =
                (0.9 + 0.1 * fst (random_sample ops g))
                + 0.01 * fst (gauss ops (snd (random_sample ops (snd (random_sample ops g)))))
            \<and> gcd_voltage (0.9 + 0.1 * fst (random_sample ops g))
                 (0.1 + 0.05 * fst (random_sample ops (snd (random_sample ops g))))
                 17.16 (time curve) ! 0 = 0.9 + 0.1 * fst (random_sample ops g)
            \<and> 0.9 \<le> 0.9 + 0.1 * fst (random_sample ops g)
            \<and> 0.9 + 0.1 * fst (random_sample ops g) < 1.0)"
proof -
  define bc where "bc = 100 * valency cu_params"
  define curve where "curve = fst (gcd_discharge ops bc 2.574 0.5 g)"
  define g1 where "g1 = snd (gcd_discharge ops bc 2.574 0.5 g)"
  define tl where "tl = gcd_loop ops bc 2.574 [1.0, 1.5, 2.0, 2.5] g1"
  have run: "generate_gcd_curve ops cu_params g = (Inr ((0.5, curve) # fst tl), snd tl)"
    by (simp add: generate_gcd_curve_def gcd_capacity_multiplier_cu gcd_current_densities_def
        Let_def case_prod_beta bc_def curve_def g1_def tl_def)
  have mt: "gcd_max_time bc 2.574 0.5 = 17.16"
    unfolding bc_def by (rule gcd_max_time_cu)
  have t: "time curve = linspace 0 17.16 200"
    by (simp only: curve_def time_gcd_discharge mt)
  have t0: "time curve ! 0 = 0"
    by (simp add: t linspace_first)
  have v0: "voltage curve ! 0 =
                (0.9 + 0.1 * fst (random_sample ops g))
                + 0.01 * fst (gauss ops (snd (random_sample ops (snd (random_sample ops g)))))"
    unfolding curve_def by (rule voltage_gcd_discharge_first)
  have pre: "gcd_voltage (0.9 + 0.1 * fst (random_sample ops g))
                 (0.1 + 0.05 * fst (random_sample ops (snd (random_sample ops g))))
                 17.16 (time curve) ! 0 = 0.9 + 0.1 * fst (random_sample ops g)"
    by (rule gcd_voltage_first) (simp_all add: t length_linspace linspace_first)
  have rng: "0.9 \<le> 0.9 + 0.1 * fst (random_sample ops g)"
    "0.9 + 0.1 * fst (random_sample ops g) < 1.0"
    using assms by simp_all
  show ?thesis
    using run t t0 v0 pre rng gcd_capacity_multiplier_cu gcd_max_time_cu by blast
qed

theorem generate_gcd_curve_cu_witness:
  "0 \<le> fst (random_sample counter_rng 4) \<and> fst (random_sample counter_rng 4) < 1
   \<and> gcd_capacity_multiplier cu_params = Inr 2.574
   \<and> gcd_max_time (100 * valency cu_params) 2.574 0.5 = 17.16
   \<and> (\<exists>curve rest g'.
        generate_gcd_curve counter_rng cu_params 4 = (Inr ((0.5, curve) # rest), g')
        \<and> time curve = linspace 0 17.16 200
        \<and> time curve ! 0 = 0
        \<and> voltage curve ! 0 = 0.915)"
proof -
  have u: "0 \<le> fst (random_sample counter_rng 4)" "fst (random_sample counter_rng 4) < 1"
    by (simp_all add: counter_rng_def)
  have v: "(0.9 + 0.1 * fst (random_sample counter_rng 4))
      + 0.01 * fst (gauss counter_rng
          (snd (random_sample counter_rng (snd (random_sample counter_rng 4))))) = 0.915"
    by (simp add: counter_rng_def)
  from generate_gcd_curve_cu [OF u] show ?thesis
    unfolding v using u by blast
qed

lemma dom_ELECTRODE_PROPERTIES: "dom ELECTRODE_PROPERTIES = set ELECTRODES"
  by (auto simp: ELECTRODES_def ELECTRODE_PROPERTIES_def dom_def split: if_splits)

lemma dom_LIGAND_PROPERTIES: "dom LIGAND_PROPERTIES = set LIGANDS"
  by (auto simp: LIGANDS_def LIGAND_PROPERTIES_def dom_def split: if_splits)

lemma electrode_absent: "e \<notin> set ELECTRODES \<Longrightarrow> ELECTRODE_PROPERTIES e = None"
  using dom_ELECTRODE_PROPERTIES by blast

lemma ligand_absent: "l \<notin> set LIGANDS \<Longrightarrow> LIGAND_PROPERTIES l = None"
  using dom_LIGAND_PROPERTIES by blast

lemma gcd_capacity_multiplier_absent:
  assumes "ligand p \<notin> set LIGANDS \<or> electrode p \<notin> set ELECTRODES"
  shows "gcd_capacity_multiplier p =
           Inl (KeyError (if electrode p \<notin> set ELECTRODES then electrode p else ligand p))"
proof (cases "electrode p \<in> set ELECTRODES")
  case True
  then obtain ep where "ELECTRODE_PROPERTIES (electrode p) = Some ep"
    using electrode_table by blast
  moreover from True assms have "LIGAND_PROPERTIES (ligand p) = None"
    by (simp add: ligand_absent)
  ultimately show ?thesis
    using True by (simp add: gcd_capacity_multiplier_def)
next
  case False
  then show ?thesis
    by (simp add: gcd_capacity_multiplier_def electrode_absent)
qed

lemma rate_max_capacity_absent:
  assumes "ligand p \<notin> set LIGANDS \<or> electrode p \<notin> set ELECTRODES"
  shows "\<exists>k. rate_max_capacity p = Inl (KeyError k)"
proof -
  have "ELECTRODE_PROPERTIES (electrode p) = None \<or> LIGAND_PROPERTIES (ligand p) = None"
    using assms by (auto simp: electrode_absent ligand_absent)
  then show ?thesis
    by (auto simp: rate_max_capacity_def split: option.splits)
qed

text \<open>
  Claim C2, as amended. For every parameter set whose ligand or electrode is outside the
  fixed set, a generator call that looks the value up raises the lookup error of the
  dictionary, \<^verbatim>\<open>KeyError\<close>, and produces no output: the discharge-curve generator
  raises it on the electrode when that is missing and on the ligand otherwise, before any
  random draw; the rate-capability generator raises it before any random draw; the
  impedance generator raises it on a missing electrode after one uniform draw.
\<close>

theorem unknown_category_raises_KeyError:
  assumes "ligand p \<notin> set LIGANDS \<or> electrode p \<notin> set ELECTRODES"
  shows "generate_gcd_curve ops p g =
           (Inl (KeyError (if electrode p \<notin> set ELECTRODES then electrode p else ligand p)), g)
       \<and> raises ''KeyError'' (generate_rate_capability ops p g)
       \<and> snd (generate_rate_capability ops p g) = g
       \<and> (electrode p \<notin> set ELECTRODES \<longrightarrow>
            generate_eis_nyquist ops p g =
              (Inl (KeyError (electrode p)), snd (random_sample ops g)))"
proof -
  have "generate_gcd_curve ops p g =
           (Inl (KeyError (if electrode p \<notin> set ELECTRODES then electrode p else ligand p)), g)"
    by (simp add: generate_gcd_curve_def gcd_capacity_multiplier_absent [OF assms])
  moreover from rate_max_capacity_absent [OF assms]
  obtain k where "rate_max_capacity p = Inl (KeyError k)" by blast
  then have "raises ''KeyError'' (generate_rate_capability ops p g)
       \<and> snd (generate_rate_capability ops p g) = g"
    by (simp add: generate_rate_capability_def raises_def)
  moreover have "generate_eis_nyquist ops p g =
              (Inl (KeyError (electrode p)), snd (random_sample ops g))"
    if "electrode p \<notin> set ELECTRODES"
    using electrode_absent [OF that]
    by (simp add: generate_eis_nyquist_def Let_def case_prod_beta)
  ultimately show ?thesis by blast
qed

lemma alien: "ligand alien_params \<notin> set LIGANDS" "electrode alien_params \<notin> set ELECTRODES"
  by (simp_all add: alien_params_def LIGANDS_def ELECTRODES_def)

theorem unknown_category_raises_KeyError_witness:
  "ligand alien_params \<notin> set LIGANDS
   \<and> electrode alien_params \<notin> set ELECTRODES
   \<and> generate_gcd_curve counter_rng alien_params 0 = (Inl (KeyError ''Copper Foil''), 0)
   \<and> raises ''KeyError'' (generate_rate_capability counter_rng alien_params 0)
   \<and> generate_eis_nyquist counter_rng alien_params 0 = (Inl (KeyError ''Copper Foil''), 1)"
proof -
  have h: "ligand alien_params \<notin> set LIGANDS \<or> electrode alien_params \<notin> set ELECTRODES"
    using alien by simp
  have e: "electrode alien_params = ''Copper Foil''" by (simp add: alien_params_def)
  have s: "snd (random_sample counter_rng 0) = 1" by (simp add: counter_rng_def)
  from unknown_category_raises_KeyError [OF h, of counter_rng 0] alien h show ?thesis
    by (simp add: e s)
qed

text \<open>
  Claim C2, as stated, fails: on a parameter set with an unknown ligand and an unknown
  electrode no generator raises an exception of class \<^verbatim>\<open>UnknownCategoryError\<close>.
\<close>

theorem unknown_category_counterexample:
  "ligand alien_params \<notin> set LIGANDS \<and> electrode alien_params \<notin> set ELECTRODES
   \<and> \<not> raises ''UnknownCategoryError'' (generate_gcd_curve counter_rng alien_params 0)
   \<and> \<not> raises ''UnknownCategoryError'' (generate_rate_capability counter_rng alien_params 0)
   \<and> \<not> raises ''UnknownCategoryError'' (generate_eis_nyquist counter_rng alien_params 0)"
proof -
  have "ELECTRODE_PROPERTIES (electrode alien_params) = None"
    "METAL_PROPERTIES (metal alien_params) = None"
    using alien by (simp_all add: electrode_absent alien_params_def METAL_PROPERTIES_def)
  then show ?thesis
    using alien
    by (simp add: raises_def generate_gcd_curve_def gcd_capacity_multiplier_def
        generate_rate_capability_def rate_max_capacity_def generate_eis_nyquist_def
        Let_def case_prod_beta)
qed

text \<open>
  Claim C1, evaluated on the unknown metal \<^verbatim>\<open>Xx\<close> with valency 1, ligand BTC and glassy
  carbon: the metal lookup returns the default bundle and the discharge-curve generator
  completes with the capacity multiplier 1.2, but the rate-capability generator subscripts
  the metal table directly and raises \<^verbatim>\<open>KeyError\<close>.
\<close>

theorem rate_capability_unknown_metal:
  "get_metal_properties (metal xx_params) =
     \<lparr>redox_factor = 1.0, conductivity = 1.0, plasmon_peak = 20.0, d_transition = 6.0\<rparr>
   \<and> gcd_capacity_multiplier xx_params = Inr 1.2
   \<and> (\<exists>d g'. generate_gcd_curve ops xx_params g = (Inr d, g'))
   \<and> generate_rate_capability ops xx_params g = (Inl (KeyError ''Xx''), g)"
proof -
  have m: "METAL_PROPERTIES ''Xx'' = None"
    by (simp add: METAL_PROPERTIES_def)
  have cm: "gcd_capacity_multiplier xx_params = Inr 1.2"
    by (simp add: gcd_capacity_multiplier_def xx_params_def get_metal_properties_def m
        ELECTRODE_PROPERTIES_def LIGAND_PROPERTIES_def)
  have "get_metal_properties (metal xx_params) =
     \<lparr>redox_factor = 1.0, conductivity = 1.0, plasmon_peak = 20.0, d_transition = 6.0\<rparr>"
    by (simp add: get_metal_properties_def xx_params_def m)
  moreover have "\<exists>d g'. generate_gcd_curve ops xx_params g = (Inr d, g')"
    by (simp add: generate_gcd_curve_def cm Let_def case_prod_beta)
  moreover have "generate_rate_capability ops xx_params g = (Inl (KeyError ''Xx''), g)"
    by (simp add: generate_rate_capability_def rate_max_capacity_def xx_params_def m)
  ultimately show ?thesis using cm by blast
qed

end
